theory Spec2Isabelle
  imports Main
begin

section \<open>Values of the relay\<close>

text \<open>
  The backend (\<^verbatim>\<open>src/backend/index.js\<close>) is an Express server with two HTTP handlers
  and one WebSocket handler.  Each handler is embedded as a function over an explicit
  world: the upload directory, and one call log per external collaborator.  The
  collaborators themselves (the synthesis and recognition engines, the transcoder, the
  two document extractors, and the library functions on strings) are the fields of an
  environment record, so every theorem holds for any behaviour they may have.
\<close>

type_synonym path = string
type_synonym bytes = string

text \<open>A thrown JavaScript value; \<open>message\<close> is the \<^verbatim>\<open>err.message\<close> of line 139.\<close>

datatype js_error = TypeError string | SystemError string | Rejected string

fun message :: "js_error \<Rightarrow> string" where
  "message (TypeError m) = m"
| "message (SystemError m) = m"
| "message (Rejected m) = m"

datatype json = JString string | JObject "(string \<times> json) list"

datatype body = Plain string | Audio bytes | Json json

text \<open>
  What the handler has written to \<^verbatim>\<open>res\<close>: the status (\<^verbatim>\<open>res.status\<close>, 200 when never
  set), the headers it set itself with \<^verbatim>\<open>res.set\<close>, and the body it sent.
\<close>

record response =
  status :: nat
  headers :: "(string \<times> string) list"
  body :: body

text \<open>\<^verbatim>\<open>req.file\<close> as multer leaves it, and the two parts of a request the handlers read.\<close>

record upload =
  originalname :: string
  path :: path

record request =
  body_text :: "string option"
  req_file :: "upload option"

text \<open>One entry of \<^verbatim>\<open>response.results\<close> of the recognition engine.\<close>

record alternative =
  transcript :: string

record result =
  alternatives :: "alternative list"
  isFinal :: bool

text \<open>
  The collaborators.  An engine answers \<open>Inl m\<close> when its promise rejects with message
  \<open>m\<close>.  The synthesis engine is the only one a handler may call twice, so its answer may
  depend on the texts of the earlier calls.  The transcoder and the DOCX extractor open
  the file themselves: they receive its content, or \<open>None\<close> when it does not exist.
\<close>

record env =
  extname :: "string \<Rightarrow> string"
  toLowerCase :: "string \<Rightarrow> string"
  trim :: "string \<Rightarrow> string"
  base64 :: "bytes \<Rightarrow> string"
  pdf :: "bytes \<Rightarrow> string + string"
  extractRawText :: "bytes option \<Rightarrow> string + string"
  synthesizeSpeech :: "string list \<Rightarrow> string \<Rightarrow> string + bytes"
  ffmpeg :: "bytes option \<Rightarrow> string + bytes"
  recognize :: "string \<Rightarrow> string + result list"

record world =
  fs :: "path \<rightharpoonup> bytes"
  tts_calls :: "string list"
  pdf_calls :: "bytes list"
  docx_calls :: "path list"
  ffmpeg_calls :: "(path \<times> path) list"
  stt_calls :: "string list"

section \<open>Statements that may throw\<close>

datatype 'a completion = Normal 'a | Throw js_error

type_synonym 'a io = "world \<Rightarrow> 'a completion \<times> world"

definition returnE :: "'a \<Rightarrow> 'a io" where
  "returnE a w = (Normal a, w)"

definition throwE :: "js_error \<Rightarrow> 'a io" where
  "throwE e w = (Throw e, w)"

text \<open>Sequencing: a throw skips the rest of the block.\<close>

definition bindE :: "'a io \<Rightarrow> ('a \<Rightarrow> 'b io) \<Rightarrow> 'b io" where
  "bindE m f w = (case m w of (Normal a, w') \<Rightarrow> f a w' | (Throw e, w') \<Rightarrow> (Throw e, w'))"

text \<open>\<^verbatim>\<open>try { m } catch (err) { h err }\<close>\<close>

definition try_catch :: "'a io \<Rightarrow> (js_error \<Rightarrow> 'a io) \<Rightarrow> 'a io" where
  "try_catch m h w = (case m w of (Normal a, w') \<Rightarrow> (Normal a, w') | (Throw e, w') \<Rightarrow> h e w')"

subsection \<open>The file system\<close>

definition readFileSync :: "path \<Rightarrow> bytes io" where
  "readFileSync p w =
     (case fs w p of
        None \<Rightarrow> (Throw (SystemError (''ENOENT: no such file or directory, open '' @ p)), w)
      | Some c \<Rightarrow> (Normal c, w))"

definition unlinkSync :: "path \<Rightarrow> unit io" where
  "unlinkSync p w =
     (case fs w p of
        None \<Rightarrow> (Throw (SystemError (''ENOENT: no such file or directory, unlink '' @ p)), w)
      | Some c \<Rightarrow> (Normal (), w\<lparr>fs := (fs w)(p := None)\<rparr>))"

subsection \<open>Calls into the collaborators\<close>

text \<open>Every call is logged before its outcome is known.\<close>

definition pdf_parse :: "env \<Rightarrow> bytes \<Rightarrow> string io" where
  "pdf_parse E buf w =
     (let w' = w\<lparr>pdf_calls := pdf_calls w @ [buf]\<rparr> in
      case pdf E buf of Inl m \<Rightarrow> (Throw (Rejected m), w') | Inr t \<Rightarrow> (Normal t, w'))"

definition mammoth :: "env \<Rightarrow> path \<Rightarrow> string io" where
  "mammoth E p w =
     (let w' = w\<lparr>docx_calls := docx_calls w @ [p]\<rparr> in
      case extractRawText E (fs w p) of
        Inl m \<Rightarrow> (Throw (Rejected m), w') | Inr t \<Rightarrow> (Normal t, w'))"

text \<open>
  \<^verbatim>\<open>ttsClient.synthesizeSpeech\<close> (lines 76-80 and 90-94).  Voice and audio configuration
  are the same literals at both call sites, so a call is identified by its text.
\<close>

definition synthesize :: "env \<Rightarrow> string \<Rightarrow> bytes io" where
  "synthesize E t w =
     (let w' = w\<lparr>tts_calls := tts_calls w @ [t]\<rparr> in
      case synthesizeSpeech E (tts_calls w) t of
        Inl m \<Rightarrow> (Throw (Rejected m), w') | Inr a \<Rightarrow> (Normal a, w'))"

text \<open>
  The promise around the transcoder (lines 112-118): it resolves on \<^verbatim>\<open>end\<close>, after the
  output was saved, and rejects on \<^verbatim>\<open>error\<close>.  A failed run is modelled as leaving no
  output behind.
\<close>

definition transcode :: "env \<Rightarrow> path \<Rightarrow> path \<Rightarrow> unit io" where
  "transcode E src dst w =
     (let w' = w\<lparr>ffmpeg_calls := ffmpeg_calls w @ [(src, dst)]\<rparr> in
      case ffmpeg E (fs w src) of
        Inl m \<Rightarrow> (Throw (Rejected m), w')
      | Inr wav \<Rightarrow> (Normal (), w'\<lparr>fs := (fs w)(dst \<mapsto> wav)\<rparr>))"

definition stt_recognize :: "env \<Rightarrow> string \<Rightarrow> result list io" where
  "stt_recognize E audio w =
     (let w' = w\<lparr>stt_calls := stt_calls w @ [audio]\<rparr> in
      case recognize E audio of
        Inl m \<Rightarrow> (Throw (Rejected m), w') | Inr rs \<Rightarrow> (Normal rs, w'))"

section \<open>Text to speech: \<^verbatim>\<open>POST /api/tts\<close>\<close>

text \<open>\<^verbatim>\<open>!text\<close> for a value that is a string or undefined.\<close>

definition falsy :: "string option \<Rightarrow> bool" where
  "falsy t = (case t of None \<Rightarrow> True | Some s \<Rightarrow> s = [])"

definition send_status :: "nat \<Rightarrow> string \<Rightarrow> response" where
  "send_status c s = \<lparr>status = c, headers = [], body = Plain s\<rparr>"

definition send_audio :: "bytes \<Rightarrow> response" where
  "send_audio a = \<lparr>status = 200, headers = [(''Content-Type'', ''audio/mpeg'')], body = Audio a\<rparr>"

definition apology :: string where
  "apology = ''Sorry, text to speech failed. Please try again.''"

text \<open>
  Lines 44-69.  \<open>Inl\<close> is the early \<^verbatim>\<open>return res.status(400)...\<close> of line 65; \<open>Inr\<close> is the
  value of \<^verbatim>\<open>text\<close> when control reaches line 71.
\<close>

definition resolve_text :: "env \<Rightarrow> request \<Rightarrow> (response + string option) io" where
  "resolve_text E req =
     (case (falsy (body_text req), req_file req) of
        (True, Some f) \<Rightarrow>
          (let ext = toLowerCase E (extname E (originalname f));
               filePath = path f
           in
             if ext = ''.txt'' then
               bindE (readFileSync filePath) (\<lambda>t.
               bindE (unlinkSync filePath) (\<lambda>_. returnE (Inr (Some t))))
             else if ext = ''.pdf'' then
               bindE (readFileSync filePath) (\<lambda>dataBuffer.
               bindE (pdf_parse E dataBuffer) (\<lambda>t.
               bindE (unlinkSync filePath) (\<lambda>_. returnE (Inr (Some t)))))
             else if ext = ''.docx'' then
               bindE (mammoth E filePath) (\<lambda>t.
               bindE (unlinkSync filePath) (\<lambda>_. returnE (Inr (Some t))))
             else
               returnE (Inl (send_status 400
                 ''Unsupported file type. Please upload .txt, .pdf, or .docx'')))
      | _ \<Rightarrow> returnE (Inr (body_text req)))"

text \<open>Lines 71-83: the guard on the resolved text, and the primary synthesis call.\<close>

definition speak :: "env \<Rightarrow> string option \<Rightarrow> response io" where
  "speak E text =
     (case text of
        None \<Rightarrow> returnE (send_status 400 ''No text found for TTS'')
      | Some t \<Rightarrow>
          if t = [] \<or> trim E t = [] then returnE (send_status 400 ''No text found for TTS'')
          else bindE (synthesize E t) (\<lambda>audioContent. returnE (send_audio audioContent)))"

text \<open>The \<^verbatim>\<open>try\<close> block, lines 43-83.\<close>

definition tts_try :: "env \<Rightarrow> request \<Rightarrow> response io" where
  "tts_try E req =
     bindE (resolve_text E req) (\<lambda>r.
       case r of Inl early \<Rightarrow> returnE early | Inr text \<Rightarrow> speak E text)"

text \<open>The \<^verbatim>\<open>catch\<close> block, lines 85-100: one fallback call, itself inside a \<^verbatim>\<open>try\<close>.\<close>

definition tts_fallback :: "env \<Rightarrow> js_error \<Rightarrow> response io" where
  "tts_fallback E err =
     try_catch
       (bindE (synthesize E apology) (\<lambda>audioContent. returnE (send_audio audioContent)))
       (\<lambda>_. returnE (send_status 500 ''TTS failed completely.''))"

definition tts :: "env \<Rightarrow> request \<Rightarrow> response io" where
  "tts E req = try_catch (tts_try E req) (tts_fallback E)"

section \<open>Batch transcription: \<^verbatim>\<open>POST /api/transcribe\<close>\<close>

text \<open>\<^verbatim>\<open>xs.join(" ")\<close>\<close>

fun join :: "string list \<Rightarrow> string" where
  "join [] = []"
| "join [x] = x"
| "join (x # y # ys) = x @ '' '' @ join (y # ys)"

text \<open>
  Line 135, \<^verbatim>\<open>r.alternatives[0].transcript\<close> for each result in turn: reading \<^verbatim>\<open>transcript\<close>
  of the undefined \<^verbatim>\<open>alternatives[0]\<close> throws.
\<close>

fun top_transcripts :: "result list \<Rightarrow> js_error + string list" where
  "top_transcripts [] = Inr []"
| "top_transcripts (r # rs) =
     (case alternatives r of
        [] \<Rightarrow> Inl (TypeError ''Cannot read properties of undefined (reading 'transcript')'')
      | a # _ \<Rightarrow>
          (case top_transcripts rs of Inl e \<Rightarrow> Inl e | Inr ts \<Rightarrow> Inr (transcript a # ts)))"

definition send_json :: "nat \<Rightarrow> json \<Rightarrow> response" where
  "send_json c j = \<lparr>status = c, headers = [], body = Json j\<rparr>"

text \<open>The \<^verbatim>\<open>try\<close> block, lines 107-136.\<close>

definition transcribe_try :: "env \<Rightarrow> request \<Rightarrow> response io" where
  "transcribe_try E req =
     (case req_file req of
        None \<Rightarrow> throwE (TypeError ''Cannot read properties of undefined (reading 'path')'')
      | Some f \<Rightarrow>
          let filePath = path f;
              tmpWav = filePath @ ''.wav''
          in
            bindE (transcode E filePath tmpWav) (\<lambda>_.
            bindE (readFileSync tmpWav) (\<lambda>wav.
            bindE (stt_recognize E (base64 E wav)) (\<lambda>results.
            bindE (unlinkSync filePath) (\<lambda>_.
            bindE (unlinkSync tmpWav) (\<lambda>_.
              case top_transcripts results of
                Inl e \<Rightarrow> throwE e
              | Inr ts \<Rightarrow>
                  returnE (send_json 200 (JObject [(''transcript'', JString (join ts))]))))))))"

text \<open>The handler with its \<^verbatim>\<open>catch\<close> block, lines 137-140.\<close>

definition transcribe :: "env \<Rightarrow> request \<Rightarrow> response io" where
  "transcribe E req =
     try_catch (transcribe_try E req)
       (\<lambda>err. returnE (send_json 500 (JObject [(''error'', JString (message err))])))"

section \<open>Live transcription: the WebSocket bridge\<close>

text \<open>
  Lines 152-186.  A connection opens one recognition stream and registers four
  callbacks.  The session records what the callbacks do to the two channels: the calls
  on \<^verbatim>\<open>recognizeStream\<close> and the messages given to \<^verbatim>\<open>ws.send\<close>, oldest first.  A message
  is kept as the JSON value that \<^verbatim>\<open>JSON.stringify\<close> receives.
\<close>

type_synonym frame = bytes

text \<open>The payload of a \<^verbatim>\<open>data\<close> event of the recognition stream.\<close>

record data_event =
  results :: "result list"

datatype event = Message frame | Close | Data data_event | EngineError js_error

datatype chan_op = Write frame | End

record session =
  chan :: "chan_op list"
  sent :: "json list"

definition connection :: session where
  "connection = \<lparr>chan = [], sent = []\<rparr>"

text \<open>Lines 166-169.\<close>

definition on_error :: "js_error \<Rightarrow> session \<Rightarrow> session" where
  "on_error err s =
     s\<lparr>sent := sent s @ [JObject [(''error'', JString ''Speech recognition error'')]]\<rparr>"

text \<open>\<^verbatim>\<open>data.results[0]?.alternatives[0]\<close>, the guard of line 171.\<close>

definition top_alternative :: "data_event \<Rightarrow> alternative option" where
  "top_alternative d =
     (case results d of
        [] \<Rightarrow> None
      | r # _ \<Rightarrow> (case alternatives r of [] \<Rightarrow> None | a # _ \<Rightarrow> Some a))"

text \<open>Lines 170-176.\<close>

definition on_data :: "data_event \<Rightarrow> session \<Rightarrow> session" where
  "on_data d s =
     (case top_alternative d of
        None \<Rightarrow> s
      | Some a \<Rightarrow> s\<lparr>sent := sent s @ [JObject [(''transcript'', JString (transcript a))]]\<rparr>)"

text \<open>Lines 178-180.\<close>

definition on_message :: "frame \<Rightarrow> session \<Rightarrow> session" where
  "on_message msg s = s\<lparr>chan := chan s @ [Write msg]\<rparr>"

text \<open>Lines 182-185.\<close>

definition on_close :: "session \<Rightarrow> session" where
  "on_close s = s\<lparr>chan := chan s @ [End]\<rparr>"

fun dispatch :: "event \<Rightarrow> session \<Rightarrow> session" where
  "dispatch (Message msg) s = on_message msg s"
| "dispatch Close s = on_close s"
| "dispatch (Data d) s = on_data d s"
| "dispatch (EngineError err) s = on_error err s"

text \<open>The event loop runs one callback to its end before the next.\<close>

fun session_run :: "event list \<Rightarrow> session \<Rightarrow> session" where
  "session_run [] s = s"
| "session_run (e # es) s = session_run es (dispatch e s)"

subsection \<open>Reading a trace\<close>

text \<open>The frames the client sent, and the frames written to the recognition stream.\<close>

fun frames :: "event list \<Rightarrow> frame list" where
  "frames [] = []"
| "frames (Message msg # es) = msg # frames es"
| "frames (e # es) = frames es"

fun writes :: "chan_op list \<Rightarrow> frame list" where
  "writes [] = []"
| "writes (Write msg # ops) = msg # writes ops"
| "writes (End # ops) = writes ops"

fun client_event :: "event \<Rightarrow> bool" where
  "client_event (Message msg) = True"
| "client_event Close = True"
| "client_event e = False"

text \<open>
  The traces a \<^verbatim>\<open>ws\<close> socket can produce: it emits \<^verbatim>\<open>close\<close> once, and no \<^verbatim>\<open>message\<close>
  after it.  The recognition stream may still emit events after the close.
\<close>

fun ws_trace :: "event list \<Rightarrow> bool" where
  "ws_trace [] = True"
| "ws_trace (Close # es) = (filter client_event es = [])"
| "ws_trace (e # es) = ws_trace es"

text \<open>
  The messages one event is expected to put on the client socket, stated on the event
  alone: the right-hand side of the statement about \<open>sent\<close> below.
\<close>

fun pushed :: "event \<Rightarrow> json list" where
  "pushed (Data d) =
     (case top_alternative d of
        None \<Rightarrow> []
      | Some a \<Rightarrow> [JObject [(''transcript'', JString (transcript a))]])"
| "pushed (EngineError err) = [JObject [(''error'', JString ''Speech recognition error'')]]"
| "pushed e = []"

text \<open>The same event with every result marked final, or every result marked interim.\<close>

fun with_final :: "bool \<Rightarrow> event \<Rightarrow> event" where
  "with_final b (Data d) = Data (d\<lparr>results := map (\<lambda>r. r\<lparr>isFinal := b\<rparr>) (results d)\<rparr>)"
| "with_final b e = e"

section \<open>An environment for the examples\<close>

text \<open>
  Stand-ins for the library functions, right on the file names and texts of the
  examples below (lower-case ASCII names with one dot, ASCII blanks), and engines that
  succeed.  An example that needs a failing collaborator updates the field.
\<close>

definition ex_extname :: "string \<Rightarrow> string" where
  "ex_extname n =
     (let s = rev (takeWhile (\<lambda>c. c \<noteq> CHR ''.'') (rev n))
      in if length s = length n then [] else CHR ''.'' # s)"

definition ex_trim :: "string \<Rightarrow> string" where
  "ex_trim t =
     rev (dropWhile (\<lambda>c. c = CHR '' '') (rev (dropWhile (\<lambda>c. c = CHR '' '') t)))"

definition hello_world :: "result list" where
  "hello_world =
     [\<lparr>alternatives = [\<lparr>transcript = ''hello''\<rparr>], isFinal = True\<rparr>,
      \<lparr>alternatives = [\<lparr>transcript = ''world''\<rparr>], isFinal = True\<rparr>]"

definition example_env :: env where
  "example_env =
     \<lparr>extname = ex_extname,
      toLowerCase = (\<lambda>s. s),
      trim = ex_trim,
      base64 = (\<lambda>b. ''base64:'' @ b),
      pdf = (\<lambda>b. Inr b),
      extractRawText = (\<lambda>c. case c of None \<Rightarrow> Inl ''ENOENT'' | Some b \<Rightarrow> Inr b),
      synthesizeSpeech = (\<lambda>h t. Inr (''mp3:'' @ t)),
      ffmpeg = (\<lambda>c. case c of None \<Rightarrow> Inl ''No such file or directory'' | Some b \<Rightarrow> Inr (''wav:'' @ b)),
      recognize = (\<lambda>a. Inr hello_world)\<rparr>"

text \<open>The same environment with one collaborator that always fails.\<close>

definition failing_engine :: env where
  "failing_engine = example_env\<lparr>synthesizeSpeech := \<lambda>h t. Inl ''UNAVAILABLE''\<rparr>"


definition failing_transcoder :: env where
  "failing_transcoder = example_env\<lparr>ffmpeg := \<lambda>c. Inl ''Invalid data found''\<rparr>"

definition failing_recognizer :: env where
  "failing_recognizer = example_env\<lparr>recognize := \<lambda>a. Inl ''UNAVAILABLE''\<rparr>"

definition interim :: "string \<Rightarrow> result" where
  "interim t = \<lparr>alternatives = [\<lparr>transcript = t\<rparr>], isFinal = False\<rparr>"

definition final :: "string \<Rightarrow> result" where
  "final t = \<lparr>alternatives = [\<lparr>transcript = t\<rparr>], isFinal = True\<rparr>"


definition text_request :: "string \<Rightarrow> request" where
  "text_request t = \<lparr>body_text = Some t, req_file = None\<rparr>"

definition upload_request :: "string \<Rightarrow> request" where
  "upload_request name =
     \<lparr>body_text = None, req_file = Some \<lparr>originalname = name, path = ''uploads/3f9a''\<rparr>\<rparr>"

definition example_world :: world where
  "example_world =
     \<lparr>fs = [''uploads/3f9a'' \<mapsto> ''content''],
      tts_calls = [], pdf_calls = [], docx_calls = [], ffmpeg_calls = [], stt_calls = []\<rparr>"


section \<open>The synthesis relay\<close>

lemmas io_defs = returnE_def throwE_def bindE_def try_catch_def

lemma status_send [simp]:
  "status (send_status c s) = c" "status (send_audio a) = 200" "status (send_json c j) = c"
  by (simp_all add: send_status_def send_audio_def send_json_def)

text \<open>The \<^verbatim>\<open>catch\<close> block makes one call and always ends in a response.\<close>

lemma tts_fallback_eq:
  "tts_fallback E err w =
     (case synthesizeSpeech E (tts_calls w) apology of
        Inl m \<Rightarrow> (Normal (send_status 500 ''TTS failed completely.''),
                  w\<lparr>tts_calls := tts_calls w @ [apology]\<rparr>)
      | Inr a \<Rightarrow> (Normal (send_audio a), w\<lparr>tts_calls := tts_calls w @ [apology]\<rparr>))"
  by (simp add: tts_fallback_def synthesize_def io_defs Let_def split: sum.split)

lemma resolve_text_given:
  "\<not> falsy (body_text req) \<Longrightarrow> resolve_text E req w = (Normal (Inr (body_text req)), w)"
  by (simp add: resolve_text_def io_defs)

lemma speak_nonblank:
  "t \<noteq> [] \<Longrightarrow> trim E t \<noteq> [] \<Longrightarrow>
   speak E (Some t) w =
     (case synthesizeSpeech E (tts_calls w) t of
        Inl m \<Rightarrow> (Throw (Rejected m), w\<lparr>tts_calls := tts_calls w @ [t]\<rparr>)
      | Inr a \<Rightarrow> (Normal (send_audio a), w\<lparr>tts_calls := tts_calls w @ [t]\<rparr>))"
  by (simp add: speak_def synthesize_def io_defs Let_def split: sum.split)

lemma tts_try_nonblank:
  "body_text req = Some t \<Longrightarrow> t \<noteq> [] \<Longrightarrow> trim E t \<noteq> [] \<Longrightarrow>
   tts_try E req w = speak E (Some t) w"
  by (simp add: tts_try_def resolve_text_given falsy_def bindE_def)


lemma tts_unsupported:
  assumes "falsy (body_text req)" and "req_file req = Some f"
    and "toLowerCase E (extname E (originalname f)) \<notin> {''.txt'', ''.pdf'', ''.docx''}"
  shows "tts E req w =
    (Normal (send_status 400 ''Unsupported file type. Please upload .txt, .pdf, or .docx''), w)"
  using assms by (simp add: tts_def tts_try_def resolve_text_def io_defs Let_def)

lemma speak_fs: "fs (snd (speak E t w)) = fs w"
  by (simp add: speak_def synthesize_def io_defs Let_def split: option.split sum.split)

lemma tts_fallback_fs: "fs (snd (tts_fallback E e w)) = fs w"
  by (simp add: tts_fallback_eq split: sum.split)

lemma resolve_text_txt:
  assumes "falsy (body_text req)" and "req_file req = Some f"
    and "toLowerCase E (extname E (originalname f)) = ''.txt''" and "fs w (path f) = Some c"
  shows "resolve_text E req w = (Normal (Inr (Some c)), w\<lparr>fs := (fs w)(path f := None)\<rparr>)"
  using assms by (simp add: resolve_text_def readFileSync_def unlinkSync_def io_defs Let_def)

text \<open>The \<^verbatim>\<open>.txt\<close> branch reaches line 68, whatever happens to the synthesis afterwards.\<close>

lemma tts_txt_upload_deleted:
  assumes "falsy (body_text req)" and "req_file req = Some f"
    and "toLowerCase E (extname E (originalname f)) = ''.txt''" and "fs w (path f) = Some c"
  shows "fs (snd (tts E req w)) = (fs w)(path f := None)"
proof -
  let ?w1 = "w\<lparr>fs := (fs w)(path f := None)\<rparr>"
  have tr: "tts_try E req w = speak E (Some c) ?w1"
    by (simp add: tts_try_def bindE_def resolve_text_txt [OF assms])
  obtain r w2 where sp: "speak E (Some c) ?w1 = (r, w2)"
    by (cases "speak E (Some c) ?w1")
  have "fs w2 = fs ?w1"
    using speak_fs [of E "Some c" ?w1] sp by simp
  then show ?thesis
    using tr sp tts_fallback_fs [of E _ w2]
    by (cases r) (simp_all add: tts_def try_catch_def)
qed

text \<open>
  Claim C2, as stated, speaks of every request with non-empty text.  A text of blanks is
  non-empty, yet the guard of line 71 answers it with 400 before the engine is called at
  all, even with an engine that would fail on every call.
\<close>

theorem tts_blank_text_counterexample:
  "tts failing_engine (text_request ''  '') example_world =
     (Normal (send_status 400 ''No text found for TTS''), example_world) \<and>
   tts_calls example_world = []"
  by (simp add: tts_def tts_try_def resolve_text_def speak_def io_defs text_request_def
      falsy_def failing_engine_def example_env_def ex_trim_def example_world_def)

text \<open>
  Claim C2, amended: for a request whose text is non-empty after trimming, the handler
  always ends in a response, never in a throw; it answers 500 exactly when the primary
  call and the fallback call both fail; and when the engine fails on every call it has
  invoked the engine exactly twice, first with the request's text and then with the
  apology phrase, and answers 500.
\<close>

theorem tts_engine_always_failing:
  assumes "body_text req = Some t" and "t \<noteq> []" and "trim E t \<noteq> []"
  shows "\<exists>r w'. tts E req w = (Normal r, w') \<and>
     (status r = 500 \<longleftrightarrow>
        isl (synthesizeSpeech E (tts_calls w) t) \<and>
        isl (synthesizeSpeech E (tts_calls w @ [t]) apology)) \<and>
     ((\<forall>h x. isl (synthesizeSpeech E h x)) \<longrightarrow>
        tts_calls w' = tts_calls w @ [t, apology] \<and>
        r = send_status 500 ''TTS failed completely.'')"
proof (cases "synthesizeSpeech E (tts_calls w) t")
  case (Inr a)
  then have "tts E req w = (Normal (send_audio a), w\<lparr>tts_calls := tts_calls w @ [t]\<rparr>)"
    using assms by (simp add: tts_def try_catch_def tts_try_nonblank speak_nonblank)
  moreover have "\<not> (\<forall>h x. isl (synthesizeSpeech E h x))"
    using Inr by (metis sum.disc(2))
  ultimately show ?thesis using Inr by auto
next
  case (Inl m)
  let ?w1 = "w\<lparr>tts_calls := tts_calls w @ [t]\<rparr>"
  have run: "tts E req w = tts_fallback E (Rejected m) ?w1"
    using assms Inl by (simp add: tts_def try_catch_def tts_try_nonblank speak_nonblank)
  show ?thesis
  proof (cases "synthesizeSpeech E (tts_calls w @ [t]) apology")
    case (Inr a)
    then have "\<not> (\<forall>h x. isl (synthesizeSpeech E h x))"
      by (metis sum.disc(2))
    then show ?thesis using run Inl Inr by (auto simp: tts_fallback_eq)
  next
    case fallback_fails: (Inl m')
    then show ?thesis using run Inl by (simp add: tts_fallback_eq)
  qed
qed

theorem tts_engine_always_failing_witness:
  "\<exists>w'. tts failing_engine (text_request ''hello'') example_world =
          (Normal (send_status 500 ''TTS failed completely.''), w') \<and>
        tts_calls w' = [''hello'', apology]"
proof -
  have given: "body_text (text_request ''hello'') = Some ''hello''"
    by (simp add: text_request_def)
  have nonblank: "trim failing_engine ''hello'' \<noteq> []"
    by (simp add: failing_engine_def example_env_def ex_trim_def)
  have fails: "\<forall>h x. isl (synthesizeSpeech failing_engine h x)"
    by (simp add: failing_engine_def)
  show ?thesis
    using tts_engine_always_failing [OF given _ nonblank, of example_world] fails
    by (auto simp: example_world_def)
qed

text \<open>
  Claim C8: for a request with no text and an uploaded file whose extension is none of
  \<^verbatim>\<open>.txt\<close>, \<^verbatim>\<open>.pdf\<close>, \<^verbatim>\<open>.docx\<close>, the handler answers 400 with the unsupported-file-type
  message, and neither extractor nor the synthesis engine has been called.
\<close>

theorem tts_unsupported_extension:
  assumes "falsy (body_text req)" and "req_file req = Some f"
    and "toLowerCase E (extname E (originalname f)) \<notin> {''.txt'', ''.pdf'', ''.docx''}"
    and "tts E req w = (c, w')"
  shows "c = Normal (send_status 400 ''Unsupported file type. Please upload .txt, .pdf, or .docx'')
    \<and> pdf_calls w' = pdf_calls w \<and> docx_calls w' = docx_calls w \<and> tts_calls w' = tts_calls w"
  using assms by (auto simp: tts_unsupported)

theorem tts_unsupported_extension_witness:
  "fst (tts example_env (upload_request ''notes.xyz'') example_world) =
     Normal (send_status 400 ''Unsupported file type. Please upload .txt, .pdf, or .docx'') \<and>
   pdf_calls (snd (tts example_env (upload_request ''notes.xyz'') example_world)) = [] \<and>
   docx_calls (snd (tts example_env (upload_request ''notes.xyz'') example_world)) = [] \<and>
   tts_calls (snd (tts example_env (upload_request ''notes.xyz'') example_world)) = []"
proof -
  let ?f = "\<lparr>originalname = ''notes.xyz'', path = ''uploads/3f9a''\<rparr>"
  have no_text: "falsy (body_text (upload_request ''notes.xyz''))"
    by (simp add: upload_request_def falsy_def)
  have upload: "req_file (upload_request ''notes.xyz'') = Some ?f"
    by (simp add: upload_request_def)
  have ext: "toLowerCase example_env (extname example_env (originalname ?f))
      \<notin> {''.txt'', ''.pdf'', ''.docx''}"
    by (simp add: example_env_def ex_extname_def)
  have run: "tts example_env (upload_request ''notes.xyz'') example_world =
      (fst (tts example_env (upload_request ''notes.xyz'') example_world),
       snd (tts example_env (upload_request ''notes.xyz'') example_world))"
    by simp
  show ?thesis
    using tts_unsupported_extension [OF no_text upload ext run]
    by (simp add: example_world_def)
qed



text \<open>
  Claim C10: when the handler rejects an upload for its extension, the uploaded file is
  still on disk afterwards: the \<^verbatim>\<open>return\<close> of line 65 leaves before the unlink of line
  68, which the \<^verbatim>\<open>.txt\<close> branch reaches.
\<close>

theorem tts_unsupported_upload_kept:
  assumes "falsy (body_text req)" and "req_file req = Some f" and "fs w (path f) = Some c"
  shows "(toLowerCase E (extname E (originalname f)) \<notin> {''.txt'', ''.pdf'', ''.docx''} \<longrightarrow>
            fst (tts E req w) =
              Normal (send_status 400 ''Unsupported file type. Please upload .txt, .pdf, or .docx'') \<and>
            fs (snd (tts E req w)) (path f) = Some c) \<and>
         (toLowerCase E (extname E (originalname f)) = ''.txt'' \<longrightarrow>
            fs (snd (tts E req w)) (path f) = None)"
  using assms by (simp add: tts_unsupported tts_txt_upload_deleted)

theorem tts_unsupported_upload_kept_witness:
  "fs (snd (tts example_env (upload_request ''notes.xyz'') example_world)) ''uploads/3f9a'' =
     Some ''content'' \<and>
   fs (snd (tts example_env (upload_request ''notes.txt'') example_world)) ''uploads/3f9a'' = None"
proof -
  let ?xyz = "\<lparr>originalname = ''notes.xyz'', path = ''uploads/3f9a''\<rparr>"
  let ?txt = "\<lparr>originalname = ''notes.txt'', path = ''uploads/3f9a''\<rparr>"
  have no_text: "falsy (body_text (upload_request n))" for n
    by (simp add: upload_request_def falsy_def)
  have up_xyz: "req_file (upload_request ''notes.xyz'') = Some ?xyz"
    and up_txt: "req_file (upload_request ''notes.txt'') = Some ?txt"
    by (simp_all add: upload_request_def)
  have on_disk: "fs example_world (path ?xyz) = Some ''content''"
    "fs example_world (path ?txt) = Some ''content''"
    by (simp_all add: example_world_def)
  have ext_xyz: "toLowerCase example_env (extname example_env (originalname ?xyz))
      \<notin> {''.txt'', ''.pdf'', ''.docx''}"
    by (simp add: example_env_def ex_extname_def)
  have ext_txt: "toLowerCase example_env (extname example_env (originalname ?txt)) = ''.txt''"
    by (simp add: example_env_def ex_extname_def)
  show ?thesis
    using tts_unsupported_upload_kept [OF no_text up_xyz on_disk(1), of example_env]
      tts_unsupported_upload_kept [OF no_text up_txt on_disk(2), of example_env] ext_xyz ext_txt
    by simp
qed

section \<open>The batch transcription relay\<close>



lemma transcribe_transcoder_fails:
  assumes "req_file req = Some f" and "ffmpeg E (fs w (path f)) = Inl m"
  shows "transcribe E req w =
    (Normal (send_json 500 (JObject [(''error'', JString m)])),
     w\<lparr>ffmpeg_calls := ffmpeg_calls w @ [(path f, path f @ ''.wav'')]\<rparr>)"
  using assms
  by (simp add: transcribe_def transcribe_try_def transcode_def io_defs Let_def)

lemma transcribe_recognition_fails:
  assumes "req_file req = Some f" and "ffmpeg E (fs w (path f)) = Inr wav"
    and "recognize E (base64 E wav) = Inl m"
  shows "transcribe E req w =
    (Normal (send_json 500 (JObject [(''error'', JString m)])),
     w\<lparr>ffmpeg_calls := ffmpeg_calls w @ [(path f, path f @ ''.wav'')],
       fs := (fs w)(path f @ ''.wav'' \<mapsto> wav),
       stt_calls := stt_calls w @ [base64 E wav]\<rparr>)"
  using assms
  by (simp add: transcribe_def transcribe_try_def transcode_def readFileSync_def
      stt_recognize_def io_defs Let_def)

text \<open>
  Claim C1 says that the upload and its \<^verbatim>\<open>.wav\<close> sibling are deleted however the job ends.
  The handler unlinks both only after a successful recognition (lines 132-133); its
  \<^verbatim>\<open>catch\<close> block deletes nothing.  When the transcoder fails the upload stays on disk;
  when the engine fails the upload and the \<^verbatim>\<open>.wav\<close> file both stay; only the job that
  succeeds leaves neither behind.
\<close>

theorem transcribe_failure_keeps_files:
  "fst (transcribe failing_transcoder (upload_request ''talk.mp3'') example_world) =
     Normal (send_json 500 (JObject [(''error'', JString ''Invalid data found'')])) \<and>
   fs (snd (transcribe failing_transcoder (upload_request ''talk.mp3'') example_world))
      ''uploads/3f9a'' = Some ''content'' \<and>
   fst (transcribe failing_recognizer (upload_request ''talk.mp3'') example_world) =
     Normal (send_json 500 (JObject [(''error'', JString ''UNAVAILABLE'')])) \<and>
   fs (snd (transcribe failing_recognizer (upload_request ''talk.mp3'') example_world))
      ''uploads/3f9a'' = Some ''content'' \<and>
   fs (snd (transcribe failing_recognizer (upload_request ''talk.mp3'') example_world))
      ''uploads/3f9a.wav'' = Some ''wav:content'' \<and>
   fs (snd (transcribe example_env (upload_request ''talk.mp3'') example_world))
      ''uploads/3f9a'' = None \<and>
   fs (snd (transcribe example_env (upload_request ''talk.mp3'') example_world))
      ''uploads/3f9a.wav'' = None"
  by (simp add: transcribe_def transcribe_try_def transcode_def readFileSync_def
      stt_recognize_def unlinkSync_def io_defs Let_def upload_request_def failing_transcoder_def
      failing_recognizer_def example_env_def example_world_def hello_world_def)





text \<open>
  Claim C7: when the transcoder fails, the handler answers 500 with the JSON object
  \<open>{error}\<close> carrying the transcoder's message, and the recognition engine has not been
  called.
\<close>

theorem transcribe_transcoder_failure:
  assumes "req_file req = Some f" and "ffmpeg E (fs w (path f)) = Inl m"
    and "transcribe E req w = (c, w')"
  shows "c = Normal (send_json 500 (JObject [(''error'', JString m)])) \<and>
    stt_calls w' = stt_calls w"
  using assms by (auto simp: transcribe_transcoder_fails)

theorem transcribe_transcoder_failure_witness:
  "fst (transcribe failing_transcoder (upload_request ''talk.mp3'') example_world) =
     Normal (send_json 500 (JObject [(''error'', JString ''Invalid data found'')])) \<and>
   stt_calls (snd (transcribe failing_transcoder (upload_request ''talk.mp3'') example_world)) = []"
proof -
  let ?f = "\<lparr>originalname = ''talk.mp3'', path = ''uploads/3f9a''\<rparr>"
  have upload: "req_file (upload_request ''talk.mp3'') = Some ?f"
    by (simp add: upload_request_def)
  have fails: "ffmpeg failing_transcoder (fs example_world (path ?f)) = Inl ''Invalid data found''"
    by (simp add: failing_transcoder_def)
  have run: "transcribe failing_transcoder (upload_request ''talk.mp3'') example_world =
      (fst (transcribe failing_transcoder (upload_request ''talk.mp3'') example_world),
       snd (transcribe failing_transcoder (upload_request ''talk.mp3'') example_world))"
    by simp
  show ?thesis
    using transcribe_transcoder_failure [OF upload fails run]
    by (simp add: example_world_def)
qed

section \<open>The live bridge: what reaches each channel\<close>

lemma writes_append: "writes (xs @ ys) = writes xs @ writes ys"
  by (induction xs rule: writes.induct) simp_all

lemma writes_chan_run: "writes (chan (session_run es s)) = writes (chan s) @ frames es"
proof (induction es arbitrary: s)
  case Nil
  show ?case by simp
next
  case (Cons e es)
  show ?case
    by (cases e) (simp_all add: Cons.IH on_message_def on_close_def on_data_def on_error_def
        writes_append split: option.split)
qed

lemma chan_run_messages: "chan (session_run (map Message ms) s) = chan s @ map Write ms"
  by (induction ms arbitrary: s) (simp_all add: on_message_def)

lemma chan_run_engine_only:
  "filter client_event es = [] \<Longrightarrow> chan (session_run es s) = chan s"
proof (induction es arbitrary: s)
  case Nil
  show ?case by simp
next
  case (Cons e es)
  then show ?case
    by (cases e) (simp_all add: on_data_def on_error_def split: option.split)
qed

lemma frames_engine_only: "filter client_event es = [] \<Longrightarrow> frames es = []"
  by (induction es rule: frames.induct) simp_all

lemma chan_run_closed:
  "ws_trace es \<Longrightarrow> Close \<in> set es \<Longrightarrow>
   chan (session_run es s) = chan s @ map Write (frames es) @ [End]"
proof (induction es arbitrary: s)
  case Nil
  then show ?case by simp
next
  case (Cons e es)
  show ?case
  proof (cases e)
    case (Message msg)
    with Cons.prems have "ws_trace es" "Close \<in> set es" by simp_all
    then show ?thesis using Message by (simp add: Cons.IH on_message_def)
  next
    case Close
    with Cons.prems have quiet: "filter client_event es = []" by simp
    show ?thesis using Close
      by (simp add: chan_run_engine_only [OF quiet] frames_engine_only [OF quiet] on_close_def)
  next
    case (Data d)
    with Cons.prems have "ws_trace es" "Close \<in> set es" by simp_all
    then show ?thesis using Data by (simp add: Cons.IH on_data_def split: option.split)
  next
    case (EngineError err)
    with Cons.prems have "ws_trace es" "Close \<in> set es" by simp_all
    then show ?thesis using EngineError by (simp add: Cons.IH on_error_def)
  qed
qed

lemma sent_run: "sent (session_run es s) = sent s @ concat (map pushed es)"
proof (induction es arbitrary: s)
  case Nil
  show ?case by simp
next
  case (Cons e es)
  show ?case
    by (cases e) (simp_all add: Cons.IH on_message_def on_close_def on_data_def on_error_def
        split: option.split)
qed

lemma pushed_with_final: "pushed (with_final b e) = pushed e"
  by (cases e) (simp_all add: top_alternative_def split: list.split)

text \<open>
  Claim C3, as stated: every result event of the recognition stream, partial or final,
  is serialized as \<open>{transcript}\<close> and pushed to the client.  The guard of line 171 drops
  some: a \<^verbatim>\<open>data\<close> event with no result pushes nothing, and of an event with two results
  only the first is pushed.
\<close>

theorem live_results_skipped_counterexample:
  "sent (session_run [Data \<lparr>results = []\<rparr>] connection) = [] \<and>
   sent (session_run [Data \<lparr>results = [final ''hello'', interim ''wor'']\<rparr>] connection) =
     [JObject [(''transcript'', JString ''hello'')]]"
  by (simp add: on_data_def top_alternative_def connection_def final_def interim_def)

text \<open>
  Claim C3, amended: every \<^verbatim>\<open>data\<close> event whose first result has an alternative is pushed
  as \<open>{transcript}\<close> of that top alternative, one message per event, in emission order
  (together with one \<open>{error}\<close> message per \<^verbatim>\<open>error\<close> event); an event with no result, or
  whose first result has no alternative, pushes nothing.  Whether the results are
  interim or final makes no difference to what is pushed.
\<close>

theorem live_results_pushed_in_order:
  "sent (session_run es connection) = concat (map pushed es) \<and>
   sent (session_run (map (with_final b) es) connection) = sent (session_run es connection)"
  by (simp add: sent_run connection_def pushed_with_final o_def)

theorem live_results_pushed_in_order_witness:
  "sent (session_run
      [Data \<lparr>results = [interim ''hel'']\<rparr>, Message ''A'', Data \<lparr>results = []\<rparr>,
       EngineError (Rejected ''deadline''), Data \<lparr>results = [final ''hello'']\<rparr>] connection) =
     [JObject [(''transcript'', JString ''hel'')],
      JObject [(''error'', JString ''Speech recognition error'')],
      JObject [(''transcript'', JString ''hello'')]]"
  using live_results_pushed_in_order
    [of "[Data \<lparr>results = [interim ''hel'']\<rparr>, Message ''A'', Data \<lparr>results = []\<rparr>,
          EngineError (Rejected ''deadline''), Data \<lparr>results = [final ''hello'']\<rparr>]" True]
  by (simp add: top_alternative_def interim_def final_def)

text \<open>
  Claim C4: within a session every frame received from the client is written verbatim
  to the recognition stream, in arrival order, whatever the stream emits in between;
  and when the client sends the frames \<open>ms\<close> and nothing else, the stream receives
  exactly one write per frame, in that order.
\<close>

theorem live_frames_forwarded_in_order:
  "writes (chan (session_run es connection)) = frames es \<and>
   chan (session_run (map Message ms) connection) = map Write ms"
  by (simp add: writes_chan_run chan_run_messages connection_def)

theorem live_frames_forwarded_in_order_witness:
  "chan (session_run [Message ''A'', Message ''B'', Message ''C''] connection) =
     [Write ''A'', Write ''B'', Write ''C'']"
  using live_frames_forwarded_in_order [of "[]" "[''A'', ''B'', ''C'']"] by simp

text \<open>
  Claim C5: when the client connection closes, the recognition stream receives exactly
  one end-of-input call, and it is the last call on the stream: no frame is written
  after it.  This holds on every trace a socket can emit.
\<close>

theorem live_close_ends_stream_once:
  "ws_trace es \<Longrightarrow> Close \<in> set es \<Longrightarrow>
   chan (session_run es connection) = map Write (frames es) @ [End]"
  by (simp add: chan_run_closed connection_def)

theorem live_close_ends_stream_once_witness:
  "chan (session_run
      [Message ''A'', Data \<lparr>results = [interim ''hel'']\<rparr>, Message ''B'', Close,
       Data \<lparr>results = [final ''hello'']\<rparr>] connection) =
     [Write ''A'', Write ''B'', End]"
  using live_close_ends_stream_once
    [of "[Message ''A'', Data \<lparr>results = [interim ''hel'']\<rparr>, Message ''B'', Close,
          Data \<lparr>results = [final ''hello'']\<rparr>]"]
  by simp

end
